theory Spec2Isabelle
  imports Main "HOL-Library.Word"
begin

section \<open>Go values: bytes, errors, panics\<close>

type_synonym byte = "8 word"
type_synonym bytes = "byte list"
type_synonym u32 = "32 word"
type_synonym u64 = "64 word"

text \<open>A Go \<^verbatim>\<open>error\<close> value is represented by its message.\<close>

type_synonym error = string

text \<open>
  A Go call either returns or panics. The panics that the modelled functions can raise
  are a slice expression out of range (\<^verbatim>\<open>pathParts[2:]\<close>), a nil pointer dereference
  (\<^verbatim>\<open>httpmod.requestBytes\<close> on a nil \<^verbatim>\<open>*RequestModule\<close>) and the panic of
  \<^verbatim>\<open>uuid.MustParse\<close>.
\<close>

datatype panic = SliceBoundsOutOfRange | NilPointerDereference | MustParseFailed

datatype 'a go = Return 'a | Panic panic

section \<open>Package strings (single-byte separators, as the source uses them)\<close>

definition strings_TrimPrefix :: "string \<Rightarrow> string \<Rightarrow> string" where
  "strings_TrimPrefix s prefix =
     (if take (length prefix) s = prefix then drop (length prefix) s else s)"

fun strings_Split :: "string \<Rightarrow> char \<Rightarrow> string list" where
  "strings_Split [] sep = [[]]"
| "strings_Split (c # cs) sep =
     (if c = sep then [] # strings_Split cs sep
      else (case strings_Split cs sep of
              [] \<Rightarrow> [[c]]
            | p # ps \<Rightarrow> (c # p) # ps))"

fun strings_Join :: "string list \<Rightarrow> string \<Rightarrow> string" where
  "strings_Join [] sep = []"
| "strings_Join [p] sep = p"
| "strings_Join (p # q # ps) sep = p @ sep @ strings_Join (q # ps) sep"

section \<open>The wire messages\<close>

text \<open>
  Modelled from the spec: the generated protocol-buffer types \<^verbatim>\<open>proto.HTTPRequest\<close>,
  \<^verbatim>\<open>proto.HeaderFields\<close> and \<^verbatim>\<open>proto.HTTPResponse\<close> are not among the source
  files. The wire request has the fields id, endpoint-id, method, url, headers (a map
  from a name to a list of values) and body; the wire response has request-id,
  status-code (uint32) and body.
\<close>

record HeaderFields =
  Fields :: "string list"

record HTTPRequest =
  ID :: string
  EndpointID :: string
  Method :: string
  URL :: string
  Header :: "string \<rightharpoonup> HeaderFields"
  Body :: bytes

record HTTPResponse =
  Response :: bytes
  RequestID :: string
  StatusCode :: u32

section \<open>Building the wire request from the inbound HTTP request\<close>

text \<open>
  The part of \<^verbatim>\<open>net/http.Request\<close> that \<^verbatim>\<open>MakeProtoRequest\<close> reads: the method, the
  path of the URL, the header map and the body, the latter given by what
  \<^verbatim>\<open>io.ReadAll(r.Body)\<close> yields (the bytes, or a read error).
\<close>

record http_Request =
  req_Method :: string
  req_URL_Path :: string
  req_Header :: "string \<rightharpoonup> string list"
  req_Body :: "error + bytes"

definition http_StatusOK :: u32 where
  "http_StatusOK = 200"

definition trimmedEndpointFromURL :: "string \<Rightarrow> string go" where
  "trimmedEndpointFromURL url_Path =
     (let path = strings_TrimPrefix url_Path ''/'';
          pathParts = strings_Split path CHR ''/''
      in if length pathParts = 0 then Return ''/''
         else if length pathParts < 2 then Panic SliceBoundsOutOfRange
         else Return (''/'' @ strings_Join (drop 2 pathParts) ''/''))"

definition makeProtoHeader :: "(string \<rightharpoonup> string list) \<Rightarrow> (string \<rightharpoonup> HeaderFields)" where
  "makeProtoHeader header = (\<lambda>k. case header k of
                                    None \<Rightarrow> None
                                  | Some v \<Rightarrow> Some \<lparr>Fields = v\<rparr>)"

text \<open>
  \<^verbatim>\<open>MakeProtoRequest\<close> leaves the endpoint-id field at its zero value, the empty string.
\<close>

definition MakeProtoRequest :: "string \<Rightarrow> http_Request \<Rightarrow> (error + HTTPRequest) go" where
  "MakeProtoRequest rid r =
     (case req_Body r of
        Inl err \<Rightarrow> Return (Inl err)
      | Inr b \<Rightarrow>
          (case trimmedEndpointFromURL (req_URL_Path r) of
             Panic p \<Rightarrow> Panic p
           | Return u \<Rightarrow>
               Return (Inr \<lparr>ID = rid, EndpointID = '''', Method = req_Method r, URL = u,
                            Header = makeProtoHeader (req_Header r), Body = b\<rparr>)))"

section \<open>Package strconv\<close>

definition digit :: "nat \<Rightarrow> char" where
  "digit d = char_of (48 + d)"

fun Itoa_nat :: "nat \<Rightarrow> string" where
  "Itoa_nat n = (if n < 10 then [digit n] else Itoa_nat (n div 10) @ [digit (n mod 10)])"

declare Itoa_nat.simps [simp del]

definition strconv_Itoa :: "int \<Rightarrow> string" where
  "strconv_Itoa i = (if i < 0 then CHR ''-'' # Itoa_nat (nat (- i)) else Itoa_nat (nat i))"

text \<open>
  The value a reader of decimal ASCII obtains from a string of digits (what a guest
  does with its startup argument), and the test that a string consists of digits.
\<close>

definition decimal_value :: "string \<Rightarrow> nat" where
  "decimal_value s = foldl (\<lambda>a c. 10 * a + (of_char c - 48)) 0 s"

definition is_decimal :: "string \<Rightarrow> bool" where
  "is_decimal s = (s \<noteq> [] \<and> list_all (\<lambda>c. 48 \<le> (of_char c :: nat) \<and> (of_char c :: nat) \<le> 57) s)"

section \<open>The records of the metadata store and of the metric sink\<close>

type_synonym uuid = "128 word"
type_synonym time = int
type_synonym duration = int

text \<open>
  Modelled from the spec: the declarations of \<^verbatim>\<open>types.Endpoint\<close>, \<^verbatim>\<open>types.Deploy\<close> and
  \<^verbatim>\<open>types.RuntimeMetric\<close> are not among the source files. An endpoint has an id, a
  name, an environment map and the id of its active deployment; a deployment has an id,
  the id of its parent endpoint and the blob; a runtime metric has a metric id, start
  time, duration, endpoint id, deployment id and the request URL. The environment map
  is a list of pairs, in the order in which Go's \<^verbatim>\<open>range\<close> visits it.
\<close>

record Endpoint =
  Endpoint_ID :: uuid
  Endpoint_Name :: string
  Environment :: "(string \<times> string) list"
  ActiveDeployID :: uuid

record Deploy =
  Deploy_ID :: uuid
  Deploy_EndpointID :: uuid
  Blob :: bytes

record RuntimeMetric =
  Metric_ID :: uuid
  StartTime :: time
  Duration :: duration
  DeployID :: uuid
  Metric_EndpointID :: uuid
  RequestURL :: string


section \<open>Guest linear memory and guest programs\<close>

text \<open>
  The contract of wazero's \<^verbatim>\<open>api.Memory\<close>. \<^verbatim>\<open>Read(offset, byteCount)\<close> yields the
  \<^verbatim>\<open>byteCount\<close> bytes at \<^verbatim>\<open>offset\<close>, or \<^verbatim>\<open>(nil, false)\<close> when the range is not
  within the memory. The slice that it yields is a view of the memory and not a copy:
  what is written to that range later shows in the slice, until a growth of the memory
  moves the buffer and leaves the slice with the old one. \<^verbatim>\<open>Write(offset, v)\<close> copies
  \<^verbatim>\<open>v\<close> to \<^verbatim>\<open>offset\<close> and yields \<^verbatim>\<open>true\<close>, or leaves the memory as it is and
  yields \<^verbatim>\<open>false\<close> when the range is not within the memory.
\<close>

type_synonym memory = bytes

definition Memory_Read :: "memory \<Rightarrow> u32 \<Rightarrow> u32 \<Rightarrow> bytes option" where
  "Memory_Read m offset byteCount =
     (if unat offset + unat byteCount \<le> length m
      then Some (take (unat byteCount) (drop (unat offset) m))
      else None)"

definition Memory_Write :: "memory \<Rightarrow> u32 \<Rightarrow> bytes \<Rightarrow> memory \<times> bool" where
  "Memory_Write m offset v =
     (if unat offset + length v \<le> length m
      then (take (unat offset) m @ v @ drop (unat offset + length v) m, True)
      else (m, False))"

definition DecodeU32 :: "u64 \<Rightarrow> u32" where
  "DecodeU32 input = ucast input"

text \<open>
  Where a slice obtained from \<^verbatim>\<open>Read\<close> lies in the guest memory: its offset and its
  size. A slice that shares no bytes with the guest memory (a nil slice, or a slice of a
  buffer that the memory has moved away from) has no such place.
\<close>

type_synonym view = "(u32 \<times> u32) option"

definition page_size :: nat where
  "page_size = 65536"

text \<open>
  A guest run that comes back to the host, as \<^verbatim>\<open>runtime.InstantiateModule\<close> sees it.
  The guest stores bytes that it computes from its memory at an offset that it computes
  (a store outside the memory traps), grows its memory by a number of pages (the
  runtime moving the buffer, or not), branches on what it finds in its memory, calls
  the two host functions with the values it has put on the stack, and ends by returning
  (\<open>Halt\<close>) or with an error (\<open>Fail\<close>: a trap, an exit, an import that does not
  resolve).
\<close>

datatype guest =
    Halt
  | Fail error
  | Store "memory \<Rightarrow> u32 \<times> bytes" guest
  | Grow nat bool guest
  | Branch "memory \<Rightarrow> bool" guest guest
  | Call_write_request u64 guest
  | Call_write_response u64 u64 guest

record CompiledModule =
  module_memory :: memory
  module_start :: "string list \<Rightarrow> string list \<Rightarrow> guest"

section \<open>The request module (host ABI)\<close>

record RequestModule =
  requestBytes :: bytes
  responseBytes :: bytes

definition Close :: "RequestModule \<Rightarrow> RequestModule" where
  "Close r = r\<lparr>responseBytes := [], requestBytes := []\<rparr>"

definition moduleWriteRequest :: "RequestModule \<Rightarrow> memory \<Rightarrow> u64 \<Rightarrow> memory" where
  "moduleWriteRequest r m stack0 =
     (let offset = DecodeU32 stack0
      in fst (Memory_Write m offset (requestBytes r)))"

text \<open>
  \<^verbatim>\<open>moduleWriteResponse\<close> stores the slice that \<^verbatim>\<open>Read\<close> yields, without copying it:
  the response buffer then is a view of the guest memory. The model keeps the bytes of
  the buffer in \<open>responseBytes\<close> and the place of the view beside the request module;
  \<open>refresh\<close> brings the bytes up to date when the memory has been written to.
\<close>

definition moduleWriteResponse :: "RequestModule \<Rightarrow> memory \<Rightarrow> u64 \<Rightarrow> u64 \<Rightarrow> RequestModule \<times> view" where
  "moduleWriteResponse r m stack0 stack1 =
     (let offset = DecodeU32 stack0;
          byteCount = DecodeU32 stack1
      in case Memory_Read m offset byteCount of
           None \<Rightarrow> (r\<lparr>responseBytes := []\<rparr>, None)
         | Some resp \<Rightarrow> (r\<lparr>responseBytes := resp\<rparr>, Some (offset, byteCount)))"

definition refresh :: "RequestModule \<Rightarrow> view \<Rightarrow> memory \<Rightarrow> RequestModule" where
  "refresh r v m =
     (case v of
        None \<Rightarrow> r
      | Some (offset, byteCount) \<Rightarrow>
          r\<lparr>responseBytes := take (unat byteCount) (drop (unat offset) m)\<rparr>)"

text \<open>
  Running a guest against the host functions of a request module whose response buffer
  lies at the given view: the result is the request module, the view and the guest
  memory afterwards, and the error of the run, if any.
\<close>

fun guest_run :: "guest \<Rightarrow> RequestModule \<Rightarrow> view \<Rightarrow> memory \<Rightarrow>
    RequestModule \<times> view \<times> memory \<times> error option" where
  "guest_run Halt r v m = (r, v, m, None)"
| "guest_run (Fail err) r v m = (r, v, m, Some err)"
| "guest_run (Store f g) r v m =
     (case Memory_Write m (fst (f m)) (snd (f m)) of
        (m', True) \<Rightarrow> guest_run g (refresh r v m') v m'
      | (m', False) \<Rightarrow> (r, v, m, Some ''out of bounds memory access''))"
| "guest_run (Grow pages moved g) r v m =
     guest_run g r (if moved then None else v) (m @ replicate (pages * page_size) 0)"
| "guest_run (Branch p g1 g2) r v m = (if p m then guest_run g1 r v m else guest_run g2 r v m)"
| "guest_run (Call_write_request stack0 g) r v m =
     guest_run g (refresh r v (moduleWriteRequest r m stack0)) v (moduleWriteRequest r m stack0)"
| "guest_run (Call_write_response stack0 stack1 g) r v m =
     guest_run g (fst (moduleWriteResponse r m stack0 stack1))
       (snd (moduleWriteResponse r m stack0 stack1)) m"

text \<open>
  The run of a guest from its start, when the response buffer of the request module is
  no view of the guest memory: the request module and the guest memory afterwards, and
  the error of the run, if any. When the run is over the guest writes no more, and the
  response buffer keeps the bytes it has then.
\<close>

definition run_guest :: "guest \<Rightarrow> RequestModule \<Rightarrow> memory \<Rightarrow> RequestModule \<times> memory \<times> error option" where
  "run_guest g r m = (case guest_run g r None m of (r', v', m', err) \<Rightarrow> (r', m', err))"

section \<open>The runtime worker\<close>

text \<open>
  A \<^verbatim>\<open>wazero.CompilationCache\<close> is an object shared by reference; it is represented by
  its identity.
\<close>

type_synonym CompilationCache = nat

text \<open>
  The startup context that \<^verbatim>\<open>exec\<close> hands to \<^verbatim>\<open>imports.NewBuilder()\<close>, one field
  for each \<^verbatim>\<open>With...\<close> call.
\<close>

record Builder =
  WithName :: string
  WithArgs :: "string list"
  WithStdio :: "int \<times> int \<times> int"
  WithEnv :: "string list"
  WithDirs :: "string list"
  WithListens :: "string list"
  WithDials :: "string list"
  WithNonBlockingStdio :: bool
  WithSocketsExtension :: string
  WithMaxOpenFiles :: nat
  WithMaxOpenDirs :: nat

text \<open>
  The collaborators of the worker, whose code is outside the source files: the
  \<^verbatim>\<open>google/uuid\<close> parser and generator, the metadata store, the metric store and the
  module cache of package \<^verbatim>\<open>storage\<close>, protocol-buffer serialisation, the wazero
  compiler, the WASI instantiation and the clock. Each is a function giving the result
  of the call; a returned Go \<^verbatim>\<open>error\<close> is the \<open>Inl\<close> (or \<open>Some\<close>) value.
\<close>

record world =
  uuid_Parse :: "string \<Rightarrow> error + uuid"
  uuid_New :: uuid
  store_GetEndpoint :: "uuid \<Rightarrow> error + Endpoint"
  store_GetDeploy :: "uuid \<Rightarrow> error + Deploy"
  metricStore_CreateRuntimeMetric :: "RuntimeMetric \<Rightarrow> error option"
  cache_Get :: "uuid \<Rightarrow> CompilationCache option"
  wazero_NewCompilationCache :: CompilationCache
  prot_Marshal :: "HTTPRequest \<Rightarrow> error + bytes"
  wazero_CompileModule :: "CompilationCache \<Rightarrow> bytes \<Rightarrow> error + CompiledModule"
  builder_Instantiate :: "Builder \<Rightarrow> error option"
  time_Now :: time

text \<open>What the worker does to the outside, in the order of the calls.\<close>

datatype effect =
    Warn string
  | Respond HTTPResponse
  | Poison
  | CreateRuntimeMetric RuntimeMetric
  | CachePut uuid CompilationCache

definition NewRequestModule :: "world \<Rightarrow> HTTPRequest \<Rightarrow> error + RequestModule" where
  "NewRequestModule w req =
     (case prot_Marshal w req of
        Inl err \<Rightarrow> Inl err
      | Inr b \<Rightarrow> Inr \<lparr>requestBytes = b, responseBytes = []\<rparr>)"

definition envMapToSlice :: "(string \<times> string) list \<Rightarrow> string list" where
  "envMapToSlice env = map (\<lambda>(k, v). k @ ''='' @ v) env"

definition exec_builder :: "RequestModule \<Rightarrow> (string \<times> string) list \<Rightarrow> Builder" where
  "exec_builder httpmod env =
     (let fd = - 1;
          requestLen = strconv_Itoa (int (length (requestBytes httpmod)))
      in \<lparr>WithName = ''run'',
          WithArgs = [requestLen],
          WithStdio = (fd, fd, fd),
          WithEnv = envMapToSlice env,
          WithDirs = [''/''],
          WithListens = [],
          WithDials = [],
          WithNonBlockingStdio = False,
          WithSocketsExtension = ''auto'',
          WithMaxOpenFiles = 10,
          WithMaxOpenDirs = 10\<rparr>)"

text \<open>
  \<^verbatim>\<open>exec\<close> receives the request module as a pointer, \<open>None\<close> being nil. It yields the
  request module afterwards and the warnings it has logged, or panics where it reads
  \<^verbatim>\<open>httpmod.requestBytes\<close> through a nil pointer. The deferred \<^verbatim>\<open>Close\<close> calls of the
  wazero runtime and of the WASI system touch neither the request module nor the
  collaborators.
\<close>

definition exec :: "world \<Rightarrow> bytes \<Rightarrow> CompilationCache \<Rightarrow> (string \<times> string) list \<Rightarrow>
    RequestModule option \<Rightarrow> (RequestModule option \<times> effect list) go" where
  "exec w blob cache env httpmod =
     (case wazero_CompileModule w cache blob of
        Inl err \<Rightarrow> Return (httpmod, [Warn ''compiling module failed''])
      | Inr compiled \<Rightarrow>
          (case httpmod of
             None \<Rightarrow> Panic NilPointerDereference
           | Some r \<Rightarrow>
               (let builder = exec_builder r env
                in case builder_Instantiate w builder of
                     Some err \<Rightarrow> Return (Some r, [Warn ''failed to instantiate wasi module''])
                   | None \<Rightarrow>
                       (case run_guest (module_start compiled (WithArgs builder) (WithEnv builder))
                                       r (module_memory compiled) of
                          (r', m', None) \<Rightarrow> Return (Some r', [])
                        | (r', m', Some err) \<Rightarrow>
                            Return (Some r', [Warn ''failed to instantiate guest module''])))))"

record Runtime =
  started :: time

datatype message = Started | Stopped | Request HTTPRequest | Other

text \<open>
  The result of handling one message: the worker afterwards, its effects in order,
  the panic that ended the handler (if any), and the request module as the handler
  leaves it (if the handler has built one).
\<close>

record handled =
  runtime :: Runtime
  effects :: "effect list"
  panicked :: "panic option"
  httpmod_after :: "RequestModule option"

definition Receive :: "world \<Rightarrow> Runtime \<Rightarrow> message \<Rightarrow> handled" where
  "Receive w r c =
     (case c of
        Started \<Rightarrow>
          \<lparr>runtime = r\<lparr>started := time_Now w\<rparr>, effects = [], panicked = None,
           httpmod_after = None\<rparr>
      | Stopped \<Rightarrow> \<lparr>runtime = r, effects = [], panicked = None, httpmod_after = None\<rparr>
      | Other \<Rightarrow> \<lparr>runtime = r, effects = [], panicked = None, httpmod_after = None\<rparr>
      | Request msg \<Rightarrow>
          (case uuid_Parse w (EndpointID msg) of
             Inl err \<Rightarrow>
               \<lparr>runtime = r, effects = [], panicked = Some MustParseFailed,
                httpmod_after = None\<rparr>
           | Inr eid \<Rightarrow>
          (case store_GetEndpoint w eid of
             Inl err \<Rightarrow>
               \<lparr>runtime = r, effects = [Warn ''runtime could not find endpoint from store''],
                panicked = None, httpmod_after = None\<rparr>
           | Inr endpoint \<Rightarrow>
          (case store_GetDeploy w (ActiveDeployID endpoint) of
             Inl err \<Rightarrow>
               \<lparr>runtime = r,
                effects = [Warn ''runtime could not find the endpoint's active deploy from store''],
                panicked = None, httpmod_after = None\<rparr>
           | Inr deploy \<Rightarrow>
          (let httpmod = (case NewRequestModule w msg of Inl err \<Rightarrow> None | Inr h \<Rightarrow> Some h);
               (modcache, log1) =
                 (case cache_Get w (Endpoint_ID endpoint) of
                    Some mc \<Rightarrow> (mc, [])
                  | None \<Rightarrow> (wazero_NewCompilationCache w, [Warn ''no cache hit'']))
           in case exec w (Blob deploy) modcache (Environment endpoint) httpmod of
                Panic p \<Rightarrow>
                  \<lparr>runtime = r, effects = log1, panicked = Some p, httpmod_after = httpmod\<rparr>
              | Return (httpmod', log2) \<Rightarrow>
                  (case httpmod' of
                     None \<Rightarrow>
                       \<lparr>runtime = r, effects = log1 @ log2,
                        panicked = Some NilPointerDereference, httpmod_after = None\<rparr>
                   | Some h \<Rightarrow>
                       (let resp = \<lparr>Response = responseBytes h, RequestID = ID msg,
                                    StatusCode = http_StatusOK\<rparr>;
                            metric = \<lparr>Metric_ID = uuid_New w,
                                      StartTime = started r,
                                      Duration = time_Now w - started r,
                                      DeployID = Deploy_ID deploy,
                                      Metric_EndpointID = Deploy_EndpointID deploy,
                                      RequestURL = URL msg\<rparr>;
                            log3 = (case metricStore_CreateRuntimeMetric w metric of
                                      Some err \<Rightarrow> [Warn ''failed to create runtime metric'']
                                    | None \<Rightarrow> [])
                        in \<lparr>runtime = r,
                            effects = log1 @ log2 @
                              [Respond resp, Poison, CreateRuntimeMetric metric] @ log3 @
                              [CachePut (Endpoint_ID endpoint) modcache],
                            panicked = None, httpmod_after = Some h\<rparr>)))))))"


section \<open>Observations on runs and effects\<close>










fun responses :: "effect list \<Rightarrow> HTTPResponse list" where
  "responses [] = []"
| "responses (Respond resp # es) = resp # responses es"
| "responses (e # es) = responses es"

fun metrics :: "effect list \<Rightarrow> RuntimeMetric list" where
  "metrics [] = []"
| "metrics (CreateRuntimeMetric metric # es) = metric # metrics es"
| "metrics (e # es) = metrics es"

fun is_Warn :: "effect \<Rightarrow> bool" where
  "is_Warn (Warn s) = True"
| "is_Warn e = False"

text \<open>
  The compilation cache that the handler uses for an endpoint (the cached one, or a new
  one on a miss); the request module that \<^verbatim>\<open>exec\<close> leaves when it is given one, and
  the warnings that it logs then.
\<close>

definition modcache_for :: "world \<Rightarrow> Endpoint \<Rightarrow> CompilationCache" where
  "modcache_for w endpoint =
     (case cache_Get w (Endpoint_ID endpoint) of
        Some mc \<Rightarrow> mc
      | None \<Rightarrow> wazero_NewCompilationCache w)"

definition exec_result :: "world \<Rightarrow> bytes \<Rightarrow> CompilationCache \<Rightarrow> (string \<times> string) list \<Rightarrow>
    RequestModule \<Rightarrow> RequestModule" where
  "exec_result w blob cache env h0 =
     (case wazero_CompileModule w cache blob of
        Inl err \<Rightarrow> h0
      | Inr compiled \<Rightarrow>
          (case builder_Instantiate w (exec_builder h0 env) of
             Some err \<Rightarrow> h0
           | None \<Rightarrow> fst (run_guest (module_start compiled (WithArgs (exec_builder h0 env))
                                       (WithEnv (exec_builder h0 env)))
                                    h0 (module_memory compiled))))"

definition exec_log :: "world \<Rightarrow> bytes \<Rightarrow> CompilationCache \<Rightarrow> (string \<times> string) list \<Rightarrow>
    RequestModule \<Rightarrow> effect list" where
  "exec_log w blob cache env h0 =
     (case wazero_CompileModule w cache blob of
        Inl err \<Rightarrow> [Warn ''compiling module failed'']
      | Inr compiled \<Rightarrow>
          (case builder_Instantiate w (exec_builder h0 env) of
             Some err \<Rightarrow> [Warn ''failed to instantiate wasi module'']
           | None \<Rightarrow>
               (case snd (snd (run_guest (module_start compiled (WithArgs (exec_builder h0 env))
                                            (WithEnv (exec_builder h0 env)))
                                         h0 (module_memory compiled))) of
                  None \<Rightarrow> []
                | Some err \<Rightarrow> [Warn ''failed to instantiate guest module''])))"



section \<open>A concrete deployment\<close>

text \<open>
  One endpoint with one active deployment, whose guest writes the two bytes \<^verbatim>\<open>OK\<close>
  to the start of its memory and hands them to \<^verbatim>\<open>write_response\<close>. The identifier
  parser knows the strings \<^verbatim>\<open>E1\<close> (the endpoint) and \<^verbatim>\<open>E9\<close> (an identifier that no
  endpoint has); the endpoint \<^verbatim>\<open>E5\<close> exists and has no deployment.
\<close>

definition example_guest :: "string list \<Rightarrow> string list \<Rightarrow> guest" where
  "example_guest as es = Store (\<lambda>m. (0, [79, 75])) (Call_write_response 0 2 Halt)"

definition example_module :: CompiledModule where
  "example_module = \<lparr>module_memory = replicate 65536 0, module_start = example_guest\<rparr>"

definition example_endpoint :: Endpoint where
  "example_endpoint = \<lparr>Endpoint_ID = 1, Endpoint_Name = ''My endpoint'',
                        Environment = [(''FOO'', ''BAR'')], ActiveDeployID = 2\<rparr>"

definition example_deploy :: Deploy where
  "example_deploy = \<lparr>Deploy_ID = 2, Deploy_EndpointID = 1, Blob = [0, 97, 115, 109]\<rparr>"

definition example_world :: world where
  "example_world =
     \<lparr>uuid_Parse = (\<lambda>s. if s = ''E1'' then Inr 1
                         else if s = ''E5'' then Inr 5
                         else if s = ''E9'' then Inr 9
                         else Inl ''invalid UUID length''),
      uuid_New = 7,
      store_GetEndpoint = (\<lambda>u. if u = 1 then Inr example_endpoint
                                else if u = 5 then Inr (example_endpoint\<lparr>Endpoint_ID := 5, ActiveDeployID := 0\<rparr>)
                                else Inl ''could not find endpoint''),
      store_GetDeploy = (\<lambda>u. if u = 2 then Inr example_deploy else Inl ''could not find deploy''),
      metricStore_CreateRuntimeMetric = (\<lambda>metric. None),
      cache_Get = (\<lambda>u. None),
      wazero_NewCompilationCache = 0,
      prot_Marshal = (\<lambda>req. Inr (map of_char (ID req @ URL req))),
      wazero_CompileModule = (\<lambda>cache blob. Inr example_module),
      builder_Instantiate = (\<lambda>builder. None),
      time_Now = 100\<rparr>"

definition example_msg :: HTTPRequest where
  "example_msg = \<lparr>ID = ''r1'', EndpointID = ''E1'', Method = ''GET'', URL = ''/anything'',
                   Header = Map.empty, Body = []\<rparr>"

definition example_request :: http_Request where
  "example_request = \<lparr>req_Method = ''GET'', req_URL_Path = ''/live/E1/a/b'',
                       req_Header = [''Accept'' \<mapsto> [''*/*'']], req_Body = Inr [1, 2]\<rparr>"

definition example_runtime :: Runtime where
  "example_runtime = \<lparr>started = 40\<rparr>"



text \<open>
  Variations of the concrete deployment: the compiler rejects the blob; the WASI
  instantiation fails; the guest fetches the request and never calls
  \<^verbatim>\<open>write_response\<close>; the metric store fails.
\<close>

definition broken_compile_world :: world where
  "broken_compile_world =
     example_world\<lparr>wazero_CompileModule := (\<lambda>cache blob. Inl ''invalid magic number'')\<rparr>"

definition broken_wasi_world :: world where
  "broken_wasi_world =
     example_world\<lparr>builder_Instantiate := (\<lambda>builder. Some ''wasi instantiation failed'')\<rparr>"


definition broken_metrics_world :: world where
  "broken_metrics_world =
     example_world\<lparr>metricStore_CreateRuntimeMetric := (\<lambda>metric. Some ''store unavailable'')\<rparr>"

text \<open>
  Further guests: one that reads its startup argument, fetches the request to an
  offset and hands the same range back as the response; one that hands over two bytes
  and overwrites them afterwards.
\<close>

definition echo_guest :: "u32 \<Rightarrow> string list \<Rightarrow> string list \<Rightarrow> guest" where
  "echo_guest offset as es =
     (case as of
        [] \<Rightarrow> Fail ''no startup argument''
      | a # rest \<Rightarrow>
          Call_write_request (ucast offset)
            (Call_write_response (ucast offset) (of_nat (decimal_value a)) Halt))"


definition echo_world :: world where
  "echo_world =
     example_world\<lparr>wazero_CompileModule :=
       (\<lambda>cache blob. Inr \<lparr>module_memory = replicate 65536 0, module_start = echo_guest 16\<rparr>)\<rparr>"



text \<open>A guest that hands over two bytes and then traps.\<close>

definition trapping_guest :: "string list \<Rightarrow> string list \<Rightarrow> guest" where
  "trapping_guest as es =
     Store (\<lambda>m. (0, [79, 75])) (Call_write_response 0 2 (Fail ''unreachable executed''))"

definition trapping_world :: world where
  "trapping_world =
     example_world\<lparr>wazero_CompileModule :=
       (\<lambda>cache blob. Inr \<lparr>module_memory = replicate 65536 0, module_start = trapping_guest\<rparr>)\<rparr>"

section \<open>Lemmas on the string functions\<close>

lemma strings_Split_not_Nil: "strings_Split s sep \<noteq> []"
  by (induction s) (auto split: list.splits)

lemma strings_Split_append:
  "sep \<notin> set a \<Longrightarrow> strings_Split (a @ sep # rest) sep = a # strings_Split rest sep"
  by (induction a) (auto split: list.splits)

lemma strings_Join_Split: "strings_Join (strings_Split s sep) [sep] = s"
proof (induction s)
  case Nil
  show ?case by simp
next
  case (Cons x xs)
  obtain p ps where e: "strings_Split xs sep = p # ps"
    using strings_Split_not_Nil [of xs sep] by (cases "strings_Split xs sep") auto
  show ?case using Cons e by (cases ps) auto
qed

lemma of_char_digit: "d < 10 \<Longrightarrow> (of_char (digit d) :: nat) = 48 + d"
  by (simp add: digit_def)

lemma decimal_value_snoc: "decimal_value (s @ [c]) = 10 * decimal_value s + (of_char c - 48)"
  by (simp add: decimal_value_def)

lemma decimal_value_Itoa_nat: "decimal_value (Itoa_nat n) = n"
proof (induction n rule: Itoa_nat.induct)
  case (1 n)
  show ?case
  proof (cases "n < 10")
    case True
    then show ?thesis
      by (subst Itoa_nat.simps) (simp add: decimal_value_def of_char_digit)
  next
    case False
    then have "decimal_value (Itoa_nat n) =
        10 * decimal_value (Itoa_nat (n div 10)) + (of_char (digit (n mod 10)) - 48)"
      by (subst Itoa_nat.simps) (simp add: decimal_value_snoc)
    also have "\<dots> = 10 * (n div 10) + n mod 10"
      using 1 False by (simp add: of_char_digit)
    finally show ?thesis by simp
  qed
qed

lemma is_decimal_Itoa_nat: "is_decimal (Itoa_nat n)"
proof (induction n rule: Itoa_nat.induct)
  case (1 n)
  show ?case
  proof (cases "n < 10")
    case True
    then show ?thesis
      by (subst Itoa_nat.simps) (simp add: is_decimal_def of_char_digit)
  next
    case False
    then show ?thesis
      using 1 by (subst Itoa_nat.simps) (simp add: is_decimal_def of_char_digit)
  qed
qed

section \<open>Lemmas on guest runs and guest memory\<close>

lemma Memory_Write_then_take:
  "unat offset + length v \<le> length m \<Longrightarrow>
     take (length v) (drop (unat offset) (fst (Memory_Write m offset v))) = v"
  by (simp add: Memory_Write_def)

lemma Memory_Write_length: "length (fst (Memory_Write m offset v)) = length m"
  by (auto simp: Memory_Write_def)

lemma moduleWriteRequest_length: "length (moduleWriteRequest r m stack0) = length m"
  by (simp add: moduleWriteRequest_def Let_def Memory_Write_length)

lemma refresh_None: "refresh r None m = r"
  by (simp add: refresh_def)

lemma requestBytes_refresh: "requestBytes (refresh r v m) = requestBytes r"
  by (simp add: refresh_def split: option.splits)

lemma requestBytes_moduleWriteResponse:
  "requestBytes (fst (moduleWriteResponse r m stack0 stack1)) = requestBytes r"
  by (simp add: moduleWriteResponse_def Let_def split: option.splits)





lemma guest_run_requestBytes:
  "guest_run g r v m = (r', v', m', e) \<Longrightarrow> requestBytes r' = requestBytes r"
proof (induction g arbitrary: r v m)
  case (Store f g)
  then show ?case
    by (cases "Memory_Write m (fst (f m)) (snd (f m))")
       (auto simp: requestBytes_refresh split: if_splits bool.splits)
next
  case (Call_write_request stack0 g)
  then show ?case by (force simp: requestBytes_refresh)
next
  case (Call_write_response stack0 stack1 g)
  then show ?case by (force simp: requestBytes_moduleWriteResponse)
qed (auto split: if_splits)




lemma run_guest_requestBytes: "requestBytes (fst (run_guest g r m)) = requestBytes r"
proof -
  obtain r' v' m' e where "guest_run g r None m = (r', v', m', e)"
    by (cases "guest_run g r None m") auto
  then show ?thesis
    using guest_run_requestBytes by (simp add: run_guest_def)
qed


section \<open>Lemmas on the handler\<close>

lemma responses_Warn: "list_all is_Warn es \<Longrightarrow> responses (es @ fs) = responses fs"
  by (induction es rule: responses.induct) auto

lemma metrics_Warn: "list_all is_Warn es \<Longrightarrow> metrics (es @ fs) = metrics fs"
  by (induction es rule: metrics.induct) auto

lemma responses_only_Warn: "list_all is_Warn es \<Longrightarrow> responses es = []"
  using responses_Warn [of es "[]"] by simp

lemma metrics_only_Warn: "list_all is_Warn es \<Longrightarrow> metrics es = []"
  using metrics_Warn [of es "[]"] by simp

lemma Poison_not_Warn: "list_all is_Warn es \<Longrightarrow> Poison \<notin> set es"
  by (induction es) auto

lemma NewRequestModule_Inr:
  "NewRequestModule w msg = Inr h0 \<Longrightarrow>
     prot_Marshal w msg = Inr (requestBytes h0) \<and> responseBytes h0 = []"
  by (auto simp: NewRequestModule_def split: sum.splits)

lemma exec_log_Warn: "list_all is_Warn (exec_log w blob cache env h0)"
  by (simp add: exec_log_def split: sum.splits option.splits)

lemma exec_Some:
  "exec w blob cache env (Some h0) =
     Return (Some (exec_result w blob cache env h0), exec_log w blob cache env h0)"
proof (cases "wazero_CompileModule w cache blob")
  case (Inl err)
  then show ?thesis by (simp add: exec_def exec_result_def exec_log_def)
next
  case (Inr compiled)
  show ?thesis
  proof (cases "builder_Instantiate w (exec_builder h0 env)")
    case (Some err)
    with Inr show ?thesis by (simp add: exec_def exec_result_def exec_log_def Let_def)
  next
    case None
    obtain r' m' e where "run_guest (module_start compiled (WithArgs (exec_builder h0 env))
        (WithEnv (exec_builder h0 env))) h0 (module_memory compiled) = (r', m', e)"
      using prod_cases3 by blast
    with Inr None show ?thesis
      by (cases e) (simp_all add: exec_def exec_result_def exec_log_def Let_def)
  qed
qed

lemma exec_None:
  "exec w blob cache env None = Panic NilPointerDereference
     \<or> exec w blob cache env None = Return (None, [Warn ''compiling module failed''])"
  by (auto simp: exec_def split: sum.splits)

lemma Receive_resolved:
  assumes "uuid_Parse w (EndpointID msg) = Inr eid"
    and "store_GetEndpoint w eid = Inr endpoint"
    and "store_GetDeploy w (ActiveDeployID endpoint) = Inr deploy"
    and "NewRequestModule w msg = Inr h0"
  shows "Receive w r (Request msg) =
           \<lparr>runtime = r,
            effects =
              (case cache_Get w (Endpoint_ID endpoint) of
                 Some mc \<Rightarrow> []
               | None \<Rightarrow> [Warn ''no cache hit'']) @
              exec_log w (Blob deploy) (modcache_for w endpoint) (Environment endpoint) h0 @
              [Respond \<lparr>Response = responseBytes (exec_result w (Blob deploy)
                            (modcache_for w endpoint) (Environment endpoint) h0),
                        RequestID = ID msg, StatusCode = http_StatusOK\<rparr>,
               Poison,
               CreateRuntimeMetric \<lparr>Metric_ID = uuid_New w, StartTime = started r,
                  Duration = time_Now w - started r, DeployID = Deploy_ID deploy,
                  Metric_EndpointID = Deploy_EndpointID deploy, RequestURL = URL msg\<rparr>] @
              (case metricStore_CreateRuntimeMetric w
                      \<lparr>Metric_ID = uuid_New w, StartTime = started r,
                       Duration = time_Now w - started r, DeployID = Deploy_ID deploy,
                       Metric_EndpointID = Deploy_EndpointID deploy, RequestURL = URL msg\<rparr> of
                 Some err \<Rightarrow> [Warn ''failed to create runtime metric'']
               | None \<Rightarrow> []) @
              [CachePut (Endpoint_ID endpoint) (modcache_for w endpoint)],
            panicked = None,
            httpmod_after = Some (exec_result w (Blob deploy) (modcache_for w endpoint)
                                    (Environment endpoint) h0)\<rparr>"
proof (cases "cache_Get w (Endpoint_ID endpoint)")
  case None
  then have m: "modcache_for w endpoint = wazero_NewCompilationCache w"
    by (simp add: modcache_for_def)
  show ?thesis
    using assms None exec_Some [of w "Blob deploy" "wazero_NewCompilationCache w"
        "Environment endpoint" h0]
    by (simp add: Receive_def Let_def m split: option.splits)
next
  case (Some c)
  then have m: "modcache_for w endpoint = c"
    by (simp add: modcache_for_def)
  show ?thesis
    using assms Some exec_Some [of w "Blob deploy" c "Environment endpoint" h0]
    by (simp add: Receive_def Let_def m split: option.splits)
qed

lemma Receive_resolved_shape:
  assumes "uuid_Parse w (EndpointID msg) = Inr eid"
    and "store_GetEndpoint w eid = Inr endpoint"
    and "store_GetDeploy w (ActiveDeployID endpoint) = Inr deploy"
    and "NewRequestModule w msg = Inr h0"
  shows "\<exists>pre log3.
           list_all is_Warn pre \<and> list_all is_Warn log3
         \<and> set (exec_log w (Blob deploy) (modcache_for w endpoint) (Environment endpoint) h0)
             \<subseteq> set pre
         \<and> (\<forall>err. metricStore_CreateRuntimeMetric w
                      \<lparr>Metric_ID = uuid_New w, StartTime = started r,
                       Duration = time_Now w - started r, DeployID = Deploy_ID deploy,
                       Metric_EndpointID = Deploy_EndpointID deploy, RequestURL = URL msg\<rparr>
                    = Some err \<longrightarrow> log3 = [Warn ''failed to create runtime metric''])
         \<and> Receive w r (Request msg) =
             \<lparr>runtime = r,
              effects = pre @
                [Respond \<lparr>Response = responseBytes (exec_result w (Blob deploy)
                              (modcache_for w endpoint) (Environment endpoint) h0),
                          RequestID = ID msg, StatusCode = http_StatusOK\<rparr>,
                 Poison,
                 CreateRuntimeMetric \<lparr>Metric_ID = uuid_New w, StartTime = started r,
                    Duration = time_Now w - started r, DeployID = Deploy_ID deploy,
                    Metric_EndpointID = Deploy_EndpointID deploy, RequestURL = URL msg\<rparr>] @
                log3 @ [CachePut (Endpoint_ID endpoint) (modcache_for w endpoint)],
              panicked = None,
              httpmod_after = Some (exec_result w (Blob deploy) (modcache_for w endpoint)
                                      (Environment endpoint) h0)\<rparr>"
proof -
  let ?metric = "\<lparr>Metric_ID = uuid_New w, StartTime = started r,
      Duration = time_Now w - started r, DeployID = Deploy_ID deploy,
      Metric_EndpointID = Deploy_EndpointID deploy, RequestURL = URL msg\<rparr>"
  let ?pre = "(case cache_Get w (Endpoint_ID endpoint) of
                 Some mc \<Rightarrow> []
               | None \<Rightarrow> [Warn ''no cache hit'']) @
              exec_log w (Blob deploy) (modcache_for w endpoint) (Environment endpoint) h0"
  let ?log3 = "(case metricStore_CreateRuntimeMetric w ?metric of
                 Some err \<Rightarrow> [Warn ''failed to create runtime metric'']
               | None \<Rightarrow> [])"
  have 1: "list_all is_Warn ?pre"
    using exec_log_Warn by (simp split: option.splits)
  have 2: "list_all is_Warn ?log3"
    by (simp split: option.splits)
  have 3: "set (exec_log w (Blob deploy) (modcache_for w endpoint) (Environment endpoint) h0)
      \<subseteq> set ?pre"
    by simp
  have 4: "\<forall>err. metricStore_CreateRuntimeMetric w ?metric = Some err \<longrightarrow>
      ?log3 = [Warn ''failed to create runtime metric'']"
    by simp
  have 5: "Receive w r (Request msg) =
             \<lparr>runtime = r,
              effects = ?pre @
                [Respond \<lparr>Response = responseBytes (exec_result w (Blob deploy)
                              (modcache_for w endpoint) (Environment endpoint) h0),
                          RequestID = ID msg, StatusCode = http_StatusOK\<rparr>,
                 Poison, CreateRuntimeMetric ?metric] @
                ?log3 @ [CachePut (Endpoint_ID endpoint) (modcache_for w endpoint)],
              panicked = None,
              httpmod_after = Some (exec_result w (Blob deploy) (modcache_for w endpoint)
                                      (Environment endpoint) h0)\<rparr>"
    using Receive_resolved [OF assms, of r] by simp
  from 1 2 3 4 5 show ?thesis by blast
qed

lemma Receive_no_module:
  assumes "uuid_Parse w (EndpointID msg) = Inr eid"
    and "store_GetEndpoint w eid = Inr endpoint"
    and "store_GetDeploy w (ActiveDeployID endpoint) = Inr deploy"
    and "NewRequestModule w msg = Inl err"
  shows "panicked (Receive w r (Request msg)) = Some NilPointerDereference
       \<and> list_all is_Warn (effects (Receive w r (Request msg)))"
  using assms exec_None [of w "Blob deploy" "modcache_for w endpoint" "Environment endpoint"]
  by (cases "cache_Get w (Endpoint_ID endpoint)")
     (auto simp: Receive_def Let_def modcache_for_def)


lemmas run_evaluation =
  run_guest_def moduleWriteResponse_def moduleWriteRequest_def Memory_Read_def Memory_Write_def
  refresh_def DecodeU32_def page_size_def Let_def

lemma example_Receive:
  "Receive example_world example_runtime (Request example_msg) =
     \<lparr>runtime = example_runtime,
      effects = [Warn ''no cache hit'',
                 Respond \<lparr>Response = [79, 75], RequestID = ''r1'', StatusCode = 200\<rparr>,
                 Poison,
                 CreateRuntimeMetric \<lparr>Metric_ID = 7, StartTime = 40, Duration = 60, DeployID = 2,
                                      Metric_EndpointID = 1, RequestURL = ''/anything''\<rparr>,
                 CachePut 1 0],
      panicked = None,
      httpmod_after = Some \<lparr>requestBytes = [114, 49, 47, 97, 110, 121, 116, 104, 105, 110, 103],
                             responseBytes = [79, 75]\<rparr>\<rparr>"
  by (simp add: Receive_def example_world_def example_msg_def example_endpoint_def
      example_deploy_def example_module_def example_guest_def example_runtime_def
      NewRequestModule_def exec_def exec_builder_def run_evaluation http_StatusOK_def)

section \<open>The ingress side: building the wire request\<close>

text \<open>
  C8. For an inbound request whose path is \<^verbatim>\<open>/live/{endpoint_id}/{guest_path}\<close>, the
  endpoint id being one path segment, and whose body can be read, the wire request that
  \<^verbatim>\<open>MakeProtoRequest\<close> builds has the URL \<^verbatim>\<open>/{guest_path}\<close>, the given request id,
  and the method, the header values and the body of the inbound request unchanged.
\<close>

theorem MakeProtoRequest_strips_live_prefix:
  assumes "req_URL_Path r = ''/live/'' @ endpoint_id @ ''/'' @ guest_path"
    and "CHR ''/'' \<notin> set endpoint_id"
    and "req_Body r = Inr b"
  shows "\<exists>req. MakeProtoRequest rid r = Return (Inr req)
             \<and> URL req = ''/'' @ guest_path
             \<and> ID req = rid
             \<and> Method req = req_Method r
             \<and> Body req = b
             \<and> (\<forall>k. map_option Fields (Header req k) = req_Header r k)"
proof -
  have "strings_TrimPrefix (req_URL_Path r) ''/'' = ''live'' @ CHR ''/'' # endpoint_id @ CHR ''/'' # guest_path"
    using assms(1) by (simp add: strings_TrimPrefix_def)
  moreover have "strings_Split (''live'' @ CHR ''/'' # endpoint_id @ CHR ''/'' # guest_path) CHR ''/''
      = ''live'' # strings_Split (endpoint_id @ CHR ''/'' # guest_path) CHR ''/''"
    by (rule strings_Split_append) simp
  moreover have "strings_Split (endpoint_id @ CHR ''/'' # guest_path) CHR ''/''
      = endpoint_id # strings_Split guest_path CHR ''/''"
    using assms(2) by (rule strings_Split_append)
  ultimately have parts: "strings_Split (strings_TrimPrefix (req_URL_Path r) ''/'') CHR ''/''
      = ''live'' # endpoint_id # strings_Split guest_path CHR ''/''"
    by simp
  have "trimmedEndpointFromURL (req_URL_Path r) = Return (''/'' @ guest_path)"
    unfolding trimmedEndpointFromURL_def Let_def parts
    using strings_Join_Split [of guest_path "CHR ''/''"] by simp
  then show ?thesis
    using assms(3)
    by (auto simp: MakeProtoRequest_def makeProtoHeader_def split: option.splits)
qed

theorem MakeProtoRequest_strips_live_prefix_witness:
  "MakeProtoRequest ''r1'' example_request =
     Return (Inr \<lparr>ID = ''r1'', EndpointID = '''', Method = ''GET'', URL = ''/a/b'',
                  Header = makeProtoHeader [''Accept'' \<mapsto> [''*/*'']], Body = [1, 2]\<rparr>)"
proof -
  have p: "req_URL_Path example_request = ''/live/'' @ ''E1'' @ ''/'' @ ''a/b''"
    by (simp add: example_request_def)
  have s: "CHR ''/'' \<notin> set ''E1''" by simp
  have b: "req_Body example_request = Inr [1, 2]"
    by (simp add: example_request_def)
  from MakeProtoRequest_strips_live_prefix [OF p s b, of "''r1''"]
  obtain req where "MakeProtoRequest ''r1'' example_request = Return (Inr req)"
    and "URL req = ''/a/b''"
    by auto
  then show ?thesis
    by (auto simp: MakeProtoRequest_def example_request_def split: go.splits sum.splits)
qed

text \<open>
  C10. \<^verbatim>\<open>strings.Split\<close> never returns the empty slice, so the guard
  \<^verbatim>\<open>len(pathParts) == 0\<close> of \<^verbatim>\<open>trimmedEndpointFromURL\<close> is never taken; a path that,
  after trimming the leading slash, splits into fewer than two segments makes the slice
  expression \<^verbatim>\<open>pathParts[2:]\<close> panic. The path \<^verbatim>\<open>/\<close> is such a path.
\<close>

theorem trimmedEndpointFromURL_panics_below_two_segments:
  "strings_Split (strings_TrimPrefix url_Path ''/'') CHR ''/'' \<noteq> []
   \<and> (length (strings_Split (strings_TrimPrefix url_Path ''/'') CHR ''/'') < 2
        \<longrightarrow> trimmedEndpointFromURL url_Path = Panic SliceBoundsOutOfRange)"
  by (simp add: trimmedEndpointFromURL_def Let_def strings_Split_not_Nil)

theorem trimmedEndpointFromURL_panics_below_two_segments_witness:
  "length (strings_Split (strings_TrimPrefix ''/'' ''/'') CHR ''/'') < 2
   \<and> trimmedEndpointFromURL ''/'' = Panic SliceBoundsOutOfRange"
proof -
  have h: "length (strings_Split (strings_TrimPrefix ''/'' ''/'') CHR ''/'') < 2"
    by (simp add: strings_TrimPrefix_def)
  with trimmedEndpointFromURL_panics_below_two_segments [of "''/''"] show ?thesis
    by blast
qed

section \<open>The runtime worker: an endpoint id that does not parse\<close>

text \<open>
  C9. When the endpoint-id field of a wire request is not a valid UUID string (the
  parser of \<^verbatim>\<open>google/uuid\<close> returns an error for it), the handler panics in
  \<^verbatim>\<open>uuid.MustParse\<close>: it has logged nothing, has not responded, has emitted no metric and
  has left the worker as it was.
\<close>

theorem Receive_panics_on_invalid_endpoint_id:
  assumes "uuid_Parse w (EndpointID msg) = Inl err"
  shows "panicked (Receive w r (Request msg)) = Some MustParseFailed
       \<and> effects (Receive w r (Request msg)) = []
       \<and> runtime (Receive w r (Request msg)) = r"
  using assms by (simp add: Receive_def)

theorem Receive_panics_on_invalid_endpoint_id_witness:
  "uuid_Parse example_world (EndpointID (example_msg\<lparr>EndpointID := ''not-a-uuid''\<rparr>))
     = Inl ''invalid UUID length''
   \<and> panicked (Receive example_world example_runtime
        (Request (example_msg\<lparr>EndpointID := ''not-a-uuid''\<rparr>))) = Some MustParseFailed
   \<and> effects (Receive example_world example_runtime
        (Request (example_msg\<lparr>EndpointID := ''not-a-uuid''\<rparr>))) = []"
proof -
  have h: "uuid_Parse example_world (EndpointID (example_msg\<lparr>EndpointID := ''not-a-uuid''\<rparr>))
      = Inl ''invalid UUID length''"
    by (simp add: example_world_def)
  from h Receive_panics_on_invalid_endpoint_id [OF h, of example_runtime] show ?thesis
    by simp
qed

section \<open>The host ABI\<close>




text \<open>
  C7. The request buffer of the request module that the handler builds holds the
  serialised wire request. The startup context that \<^verbatim>\<open>exec\<close> builds has one argument,
  the decimal ASCII representation of the length of that buffer, and \<^verbatim>\<open>exec\<close> runs
  the guest with it. A call to \<^verbatim>\<open>write_request\<close> at an offset where that many bytes
  lie within the guest memory leaves the whole serialised request there, and the rest
  of the memory as it was, for the guest to go on with. So the guest that reads its
  argument, fetches the request to an offset and hands this range back makes \<^verbatim>\<open>exec\<close>
  end with the serialised request as response.
\<close>

theorem startup_argument_is_request_length:
  assumes "NewRequestModule w msg = Inr h0"
  shows "\<exists>b. prot_Marshal w msg = Inr b \<and> requestBytes h0 = b
     \<and> WithArgs (exec_builder h0 env) = [strconv_Itoa (int (length b))]
     \<and> is_decimal (strconv_Itoa (int (length b)))
     \<and> decimal_value (strconv_Itoa (int (length b))) = length b
     \<and> (\<forall>compiled. wazero_CompileModule w cache blob = Inr compiled \<longrightarrow>
          builder_Instantiate w (exec_builder h0 env) = None \<longrightarrow>
          (\<exists>logs. exec w blob cache env (Some h0) =
             Return (Some (fst (run_guest
               (module_start compiled [strconv_Itoa (int (length b))] (envMapToSlice env))
               h0 (module_memory compiled))), logs)))
     \<and> (\<forall>stack0 g v m. unat (DecodeU32 stack0) + length b \<le> length m \<longrightarrow>
          (\<exists>m'. guest_run (Call_write_request stack0 g) h0 v m = guest_run g (refresh h0 v m') v m'
              \<and> length m' = length m
              \<and> take (length b) (drop (unat (DecodeU32 stack0)) m') = b
              \<and> take (unat (DecodeU32 stack0)) m' = take (unat (DecodeU32 stack0)) m
              \<and> drop (unat (DecodeU32 stack0) + length b) m'
                  = drop (unat (DecodeU32 stack0) + length b) m))
     \<and> (\<forall>offset mem.
          wazero_CompileModule w cache blob
            = Inr \<lparr>module_memory = mem, module_start = echo_guest offset\<rparr> \<longrightarrow>
          builder_Instantiate w (exec_builder h0 env) = None \<longrightarrow>
          unat offset + length b \<le> length mem \<longrightarrow> length b < 2 ^ 32 \<longrightarrow>
          exec w blob cache env (Some h0) = Return (Some (h0\<lparr>responseBytes := b\<rparr>), []))"
proof -
  let ?b = "requestBytes h0"
  let ?arg = "strconv_Itoa (int (length ?b))"
  have marshal: "prot_Marshal w msg = Inr ?b" and empty: "responseBytes h0 = []"
    using assms by (simp_all add: NewRequestModule_Inr)
  have args: "WithArgs (exec_builder h0 env) = [?arg]"
    and envs: "WithEnv (exec_builder h0 env) = envMapToSlice env"
    by (simp_all add: exec_builder_def Let_def)
  have itoa: "?arg = Itoa_nat (length ?b)"
    by (simp add: strconv_Itoa_def)
  have dec: "is_decimal ?arg" "decimal_value ?arg = length ?b"
    by (simp_all add: itoa decimal_value_Itoa_nat is_decimal_Itoa_nat)
  have runs: "\<exists>logs. exec w blob cache env (Some h0) =
             Return (Some (fst (run_guest (module_start compiled [?arg] (envMapToSlice env))
               h0 (module_memory compiled))), logs)"
    if "wazero_CompileModule w cache blob = Inr compiled"
      and "builder_Instantiate w (exec_builder h0 env) = None" for compiled
    using exec_Some [of w blob cache env h0] that by (simp add: exec_result_def args envs)
  have fetch: "\<exists>m'. guest_run (Call_write_request stack0 g) h0 v m = guest_run g (refresh h0 v m') v m'
              \<and> length m' = length m
              \<and> take (length ?b) (drop (unat (DecodeU32 stack0)) m') = ?b
              \<and> take (unat (DecodeU32 stack0)) m' = take (unat (DecodeU32 stack0)) m
              \<and> drop (unat (DecodeU32 stack0) + length ?b) m'
                  = drop (unat (DecodeU32 stack0) + length ?b) m"
    if "unat (DecodeU32 stack0) + length ?b \<le> length m" for stack0 g v m
    using that
    by (intro exI [of _ "moduleWriteRequest h0 m stack0"])
       (simp add: moduleWriteRequest_def Memory_Write_def Let_def)
  have echo: "exec w blob cache env (Some h0) = Return (Some (h0\<lparr>responseBytes := ?b\<rparr>), [])"
    if c: "wazero_CompileModule w cache blob
            = Inr \<lparr>module_memory = mem, module_start = echo_guest offset\<rparr>"
      and i: "builder_Instantiate w (exec_builder h0 env) = None"
      and fit: "unat offset + length ?b \<le> length mem"
      and small: "length ?b < 2 ^ 32" for offset mem
  proof -
    have o: "DecodeU32 (ucast offset) = offset"
      by (simp add: DecodeU32_def ucast_up_ucast_id is_up)
    have "length ?b < 2 ^ 64"
      using small by (rule less_trans) simp
    then have n: "DecodeU32 (of_nat (length ?b)) = (of_nat (length ?b) :: u32)"
      by (simp add: DecodeU32_def unsigned_of_nat take_bit_nat_eq_self)
    have un: "unat (of_nat (length ?b) :: u32) = length ?b"
      using small by (simp add: unat_of_nat)
    let ?m1 = "moduleWriteRequest h0 mem (ucast offset)"
    have len: "length ?m1 = length mem"
      by (rule moduleWriteRequest_length)
    have got: "take (length ?b) (drop (unat offset) ?m1) = ?b"
      using fit by (simp add: moduleWriteRequest_def o Memory_Write_def Let_def)
    have resp: "moduleWriteResponse h0 ?m1 (ucast offset) (of_nat (length ?b))
        = (h0\<lparr>responseBytes := ?b\<rparr>, Some (offset, of_nat (length ?b)))"
      using fit by (simp add: moduleWriteResponse_def Memory_Read_def Let_def o n un len got)
    have "run_guest (echo_guest offset [?arg] (envMapToSlice env)) h0 mem
        = (h0\<lparr>responseBytes := ?b\<rparr>, ?m1, None)"
      by (simp add: echo_guest_def run_guest_def dec refresh_None resp)
    then show ?thesis
      using c i by (simp add: exec_def Let_def args envs)
  qed
  from marshal args dec runs fetch echo show ?thesis by blast
qed

theorem startup_argument_is_request_length_witness:
  "NewRequestModule echo_world example_msg
     = Inr \<lparr>requestBytes = [114, 49, 47, 97, 110, 121, 116, 104, 105, 110, 103], responseBytes = []\<rparr>
   \<and> WithArgs (exec_builder
        \<lparr>requestBytes = [114, 49, 47, 97, 110, 121, 116, 104, 105, 110, 103], responseBytes = []\<rparr>
        [(''FOO'', ''BAR'')]) = [''11'']
   \<and> exec echo_world [0, 97, 115, 109] 0 [(''FOO'', ''BAR'')]
        (Some \<lparr>requestBytes = [114, 49, 47, 97, 110, 121, 116, 104, 105, 110, 103],
               responseBytes = []\<rparr>)
     = Return (Some \<lparr>requestBytes = [114, 49, 47, 97, 110, 121, 116, 104, 105, 110, 103],
                     responseBytes = [114, 49, 47, 97, 110, 121, 116, 104, 105, 110, 103]\<rparr>, [])"
proof -
  let ?b = "[114, 49, 47, 97, 110, 121, 116, 104, 105, 110, 103] :: bytes"
  let ?h0 = "\<lparr>requestBytes = ?b, responseBytes = []\<rparr>"
  have n: "NewRequestModule echo_world example_msg = Inr ?h0"
    by (simp add: NewRequestModule_def echo_world_def example_world_def example_msg_def)
  have c: "wazero_CompileModule echo_world 0 [0, 97, 115, 109]
      = Inr \<lparr>module_memory = replicate 65536 0, module_start = echo_guest 16\<rparr>"
    and i: "builder_Instantiate echo_world (exec_builder ?h0 [(''FOO'', ''BAR'')]) = None"
    by (simp_all add: echo_world_def example_world_def)
  have fit: "unat (16 :: u32) + length ?b \<le> length (replicate 65536 (0 :: byte))"
    and small: "length ?b < 2 ^ 32"
    by simp_all
  have a: "strconv_Itoa (int (length ?b)) = ''11''"
    by code_simp
  from startup_argument_is_request_length [OF n, of "[(''FOO'', ''BAR'')]" 0 "[0, 97, 115, 109]"]
  obtain b where b: "requestBytes ?h0 = b"
    and args: "WithArgs (exec_builder ?h0 [(''FOO'', ''BAR'')]) = [strconv_Itoa (int (length b))]"
    and echo: "\<forall>offset mem.
          wazero_CompileModule echo_world 0 [0, 97, 115, 109]
            = Inr \<lparr>module_memory = mem, module_start = echo_guest offset\<rparr> \<longrightarrow>
          builder_Instantiate echo_world (exec_builder ?h0 [(''FOO'', ''BAR'')]) = None \<longrightarrow>
          unat offset + length b \<le> length mem \<longrightarrow> length b < 2 ^ 32 \<longrightarrow>
          exec echo_world [0, 97, 115, 109] 0 [(''FOO'', ''BAR'')] (Some ?h0)
            = Return (Some (?h0\<lparr>responseBytes := b\<rparr>), [])"
    by blast
  have b': "b = ?b" using b by simp
  have "exec echo_world [0, 97, 115, 109] 0 [(''FOO'', ''BAR'')] (Some ?h0)
      = Return (Some (?h0\<lparr>responseBytes := ?b\<rparr>), [])"
    using echo c i fit small unfolding b' by blast
  with n args show ?thesis
    unfolding b' a by simp
qed

text \<open>
  C4 (amended). Closing the request module after a guest run releases both buffers:
  the request buffer and the response buffer are empty afterwards.
\<close>

theorem Close_releases_both_buffers:
  "requestBytes (Close (fst (run_guest g r m))) = []
   \<and> responseBytes (Close (fst (run_guest g r m))) = []"
  by (simp add: Close_def)

text \<open>
  The handler itself never closes the request module: when it has handled the wire
  request of the concrete deployment, the request module still holds the eleven bytes
  of the serialised request and the two bytes of the response.
\<close>

theorem Receive_keeps_buffers_counterexample:
  "httpmod_after (Receive example_world example_runtime (Request example_msg)) =
     Some \<lparr>requestBytes = [114, 49, 47, 97, 110, 121, 116, 104, 105, 110, 103],
           responseBytes = [79, 75]\<rparr>"
  by (simp add: example_Receive)


section \<open>The runtime worker: a request that resolves\<close>




text \<open>
  C3. For a request whose endpoint and active deployment resolve, every runtime metric
  that the handler emits has the id of the resolved deployment as deployment id, the
  parent endpoint id of that deployment as endpoint id and the URL of the wire request
  as request URL, together with a fresh metric id, the start time of the worker and the
  time elapsed since then; and the handler that has built its request module emits
  exactly one.
\<close>

theorem Receive_metric_names_resolved_deployment:
  assumes "uuid_Parse w (EndpointID msg) = Inr eid"
    and "store_GetEndpoint w eid = Inr endpoint"
    and "store_GetDeploy w (ActiveDeployID endpoint) = Inr deploy"
  shows "(\<forall>metric \<in> set (metrics (effects (Receive w r (Request msg)))).
            DeployID metric = Deploy_ID deploy
          \<and> Metric_EndpointID metric = Deploy_EndpointID deploy
          \<and> RequestURL metric = URL msg
          \<and> Metric_ID metric = uuid_New w
          \<and> StartTime metric = started r
          \<and> Duration metric = time_Now w - started r)
       \<and> (\<forall>h0. NewRequestModule w msg = Inr h0 \<longrightarrow>
            metrics (effects (Receive w r (Request msg))) =
              [\<lparr>Metric_ID = uuid_New w, StartTime = started r,
                Duration = time_Now w - started r, DeployID = Deploy_ID deploy,
                Metric_EndpointID = Deploy_EndpointID deploy, RequestURL = URL msg\<rparr>])"
proof -
  let ?metric = "\<lparr>Metric_ID = uuid_New w, StartTime = started r,
      Duration = time_Now w - started r, DeployID = Deploy_ID deploy,
      Metric_EndpointID = Deploy_EndpointID deploy, RequestURL = URL msg\<rparr>"
  have built: "metrics (effects (Receive w r (Request msg))) = [?metric]"
    if hm: "NewRequestModule w msg = Inr h0" for h0
  proof -
    obtain pre log3 where pre: "list_all is_Warn pre" and log3: "list_all is_Warn log3"
      and E: "effects (Receive w r (Request msg)) =
                pre @ [Respond \<lparr>Response = responseBytes (exec_result w (Blob deploy)
                          (modcache_for w endpoint) (Environment endpoint) h0),
                        RequestID = ID msg, StatusCode = http_StatusOK\<rparr>,
                       Poison, CreateRuntimeMetric ?metric] @
                log3 @ [CachePut (Endpoint_ID endpoint) (modcache_for w endpoint)]"
      using Receive_resolved_shape [OF assms hm, of r] by force
    show ?thesis
      unfolding E using pre log3 by (simp add: metrics_Warn)
  qed
  have none: "metrics (effects (Receive w r (Request msg))) = []"
    if "NewRequestModule w msg = Inl err" for err
    using Receive_no_module [OF assms that, of r] by (simp add: metrics_only_Warn)
  show ?thesis
  proof (cases "NewRequestModule w msg")
    case (Inl err)
    then show ?thesis using none by simp
  next
    case (Inr h0)
    then show ?thesis using built by simp
  qed
qed

theorem Receive_metric_names_resolved_deployment_witness:
  "metrics (effects (Receive example_world example_runtime (Request example_msg))) =
     [\<lparr>Metric_ID = 7, StartTime = 40, Duration = 60, DeployID = 2, Metric_EndpointID = 1,
       RequestURL = ''/anything''\<rparr>]"
proof -
  have p: "uuid_Parse example_world (EndpointID example_msg) = Inr 1"
    and e: "store_GetEndpoint example_world 1 = Inr example_endpoint"
    and d: "store_GetDeploy example_world (ActiveDeployID example_endpoint) = Inr example_deploy"
    and n: "NewRequestModule example_world example_msg =
        Inr \<lparr>requestBytes = [114, 49, 47, 97, 110, 121, 116, 104, 105, 110, 103], responseBytes = []\<rparr>"
    by (simp_all add: example_world_def example_msg_def example_endpoint_def NewRequestModule_def)
  from Receive_metric_names_resolved_deployment [OF p e d, of example_runtime] n
  show ?thesis
    by (simp add: example_world_def example_deploy_def example_msg_def example_runtime_def)
qed

text \<open>
  C1 (amended). For a wire request whose endpoint id parses: when the endpoint and its
  active deployment resolve and the handler has built its request module, the worker
  responds exactly once (possibly with an empty body) and emits exactly one runtime
  metric, without panicking; a failure of compilation, of the WASI instantiation, of
  the guest run or of the metric store is logged as a warning and prevents neither.
  When the lookup of the endpoint or of its active deployment fails, the worker logs
  one warning and returns: it sends no response and emits no metric.
\<close>

theorem Receive_responds_and_emits_metric_when_resolved:
  assumes "uuid_Parse w (EndpointID msg) = Inr eid"
  shows "(\<forall>endpoint deploy h0.
            store_GetEndpoint w eid = Inr endpoint \<longrightarrow>
            store_GetDeploy w (ActiveDeployID endpoint) = Inr deploy \<longrightarrow>
            NewRequestModule w msg = Inr h0 \<longrightarrow>
              length (responses (effects (Receive w r (Request msg)))) = 1
            \<and> length (metrics (effects (Receive w r (Request msg)))) = 1
            \<and> panicked (Receive w r (Request msg)) = None
            \<and> (\<forall>err. wazero_CompileModule w (modcache_for w endpoint) (Blob deploy) = Inl err \<longrightarrow>
                  Warn ''compiling module failed'' \<in> set (effects (Receive w r (Request msg))))
            \<and> (\<forall>compiled err.
                  wazero_CompileModule w (modcache_for w endpoint) (Blob deploy) = Inr compiled \<longrightarrow>
                  builder_Instantiate w (exec_builder h0 (Environment endpoint)) = Some err \<longrightarrow>
                  Warn ''failed to instantiate wasi module''
                    \<in> set (effects (Receive w r (Request msg))))
            \<and> (\<forall>compiled err.
                  wazero_CompileModule w (modcache_for w endpoint) (Blob deploy) = Inr compiled \<longrightarrow>
                  builder_Instantiate w (exec_builder h0 (Environment endpoint)) = None \<longrightarrow>
                  snd (snd (run_guest
                    (module_start compiled (WithArgs (exec_builder h0 (Environment endpoint)))
                       (WithEnv (exec_builder h0 (Environment endpoint))))
                    h0 (module_memory compiled))) = Some err \<longrightarrow>
                  Warn ''failed to instantiate guest module''
                    \<in> set (effects (Receive w r (Request msg))))
            \<and> (\<forall>err. metricStore_CreateRuntimeMetric w
                         \<lparr>Metric_ID = uuid_New w, StartTime = started r,
                          Duration = time_Now w - started r, DeployID = Deploy_ID deploy,
                          Metric_EndpointID = Deploy_EndpointID deploy, RequestURL = URL msg\<rparr>
                       = Some err \<longrightarrow>
                  Warn ''failed to create runtime metric''
                    \<in> set (effects (Receive w r (Request msg)))))
       \<and> (\<forall>err. store_GetEndpoint w eid = Inl err \<longrightarrow>
              effects (Receive w r (Request msg)) =
                [Warn ''runtime could not find endpoint from store'']
            \<and> responses (effects (Receive w r (Request msg))) = []
            \<and> metrics (effects (Receive w r (Request msg))) = []
            \<and> panicked (Receive w r (Request msg)) = None)
       \<and> (\<forall>endpoint err.
            store_GetEndpoint w eid = Inr endpoint \<longrightarrow>
            store_GetDeploy w (ActiveDeployID endpoint) = Inl err \<longrightarrow>
              effects (Receive w r (Request msg)) =
                [Warn ''runtime could not find the endpoint's active deploy from store'']
            \<and> responses (effects (Receive w r (Request msg))) = []
            \<and> metrics (effects (Receive w r (Request msg))) = []
            \<and> panicked (Receive w r (Request msg)) = None)"
proof -
  have resolved:
     "length (responses (effects (Receive w r (Request msg)))) = 1
      \<and> length (metrics (effects (Receive w r (Request msg)))) = 1
      \<and> panicked (Receive w r (Request msg)) = None
      \<and> (\<forall>err. wazero_CompileModule w (modcache_for w endpoint) (Blob deploy) = Inl err \<longrightarrow>
            Warn ''compiling module failed'' \<in> set (effects (Receive w r (Request msg))))
      \<and> (\<forall>compiled err.
            wazero_CompileModule w (modcache_for w endpoint) (Blob deploy) = Inr compiled \<longrightarrow>
            builder_Instantiate w (exec_builder h0 (Environment endpoint)) = Some err \<longrightarrow>
            Warn ''failed to instantiate wasi module''
              \<in> set (effects (Receive w r (Request msg))))
      \<and> (\<forall>compiled err.
            wazero_CompileModule w (modcache_for w endpoint) (Blob deploy) = Inr compiled \<longrightarrow>
            builder_Instantiate w (exec_builder h0 (Environment endpoint)) = None \<longrightarrow>
            snd (snd (run_guest
              (module_start compiled (WithArgs (exec_builder h0 (Environment endpoint)))
                 (WithEnv (exec_builder h0 (Environment endpoint))))
              h0 (module_memory compiled))) = Some err \<longrightarrow>
            Warn ''failed to instantiate guest module''
              \<in> set (effects (Receive w r (Request msg))))
      \<and> (\<forall>err. metricStore_CreateRuntimeMetric w
                   \<lparr>Metric_ID = uuid_New w, StartTime = started r,
                    Duration = time_Now w - started r, DeployID = Deploy_ID deploy,
                    Metric_EndpointID = Deploy_EndpointID deploy, RequestURL = URL msg\<rparr>
                 = Some err \<longrightarrow>
            Warn ''failed to create runtime metric''
              \<in> set (effects (Receive w r (Request msg))))"
    if ep: "store_GetEndpoint w eid = Inr endpoint"
      and dp: "store_GetDeploy w (ActiveDeployID endpoint) = Inr deploy"
      and hm: "NewRequestModule w msg = Inr h0" for endpoint deploy h0
  proof -
    let ?metric = "\<lparr>Metric_ID = uuid_New w, StartTime = started r,
        Duration = time_Now w - started r, DeployID = Deploy_ID deploy,
        Metric_EndpointID = Deploy_EndpointID deploy, RequestURL = URL msg\<rparr>"
    let ?log2 = "exec_log w (Blob deploy) (modcache_for w endpoint) (Environment endpoint) h0"
    obtain pre log3 where pre: "list_all is_Warn pre" and log3: "list_all is_Warn log3"
      and sub: "set ?log2 \<subseteq> set pre"
      and failed: "\<forall>err. metricStore_CreateRuntimeMetric w ?metric = Some err \<longrightarrow>
          log3 = [Warn ''failed to create runtime metric'']"
      and R: "Receive w r (Request msg) =
               \<lparr>runtime = r,
                effects = pre @
                  [Respond \<lparr>Response = responseBytes (exec_result w (Blob deploy)
                                (modcache_for w endpoint) (Environment endpoint) h0),
                            RequestID = ID msg, StatusCode = http_StatusOK\<rparr>,
                   Poison, CreateRuntimeMetric ?metric] @
                  log3 @ [CachePut (Endpoint_ID endpoint) (modcache_for w endpoint)],
                panicked = None,
                httpmod_after = Some (exec_result w (Blob deploy) (modcache_for w endpoint)
                                        (Environment endpoint) h0)\<rparr>"
      using Receive_resolved_shape [OF assms ep dp hm, of r] by blast
    have counts: "length (responses (effects (Receive w r (Request msg)))) = 1"
      "length (metrics (effects (Receive w r (Request msg)))) = 1"
      "panicked (Receive w r (Request msg)) = None"
      unfolding R using pre log3 by (simp_all add: responses_Warn metrics_Warn)
    have in_effects: "e \<in> set (effects (Receive w r (Request msg)))" if "e \<in> set ?log2" for e
      unfolding R using that sub by auto
    have compile: "Warn ''compiling module failed'' \<in> set (effects (Receive w r (Request msg)))"
      if "wazero_CompileModule w (modcache_for w endpoint) (Blob deploy) = Inl err" for err
      using that by (intro in_effects) (simp add: exec_log_def)
    have wasi: "Warn ''failed to instantiate wasi module''
        \<in> set (effects (Receive w r (Request msg)))"
      if "wazero_CompileModule w (modcache_for w endpoint) (Blob deploy) = Inr compiled"
        and "builder_Instantiate w (exec_builder h0 (Environment endpoint)) = Some err"
      for compiled err
      using that by (intro in_effects) (simp add: exec_log_def)
    have guest: "Warn ''failed to instantiate guest module''
        \<in> set (effects (Receive w r (Request msg)))"
      if "wazero_CompileModule w (modcache_for w endpoint) (Blob deploy) = Inr compiled"
        and "builder_Instantiate w (exec_builder h0 (Environment endpoint)) = None"
        and "snd (snd (run_guest
              (module_start compiled (WithArgs (exec_builder h0 (Environment endpoint)))
                 (WithEnv (exec_builder h0 (Environment endpoint))))
              h0 (module_memory compiled))) = Some err"
      for compiled err
      using that by (intro in_effects) (simp add: exec_log_def)
    have store: "Warn ''failed to create runtime metric''
        \<in> set (effects (Receive w r (Request msg)))"
      if "metricStore_CreateRuntimeMetric w ?metric = Some err" for err
      unfolding R using that failed by auto
    from counts compile wasi guest store show ?thesis by blast
  qed
  have no_endpoint: "effects (Receive w r (Request msg)) =
        [Warn ''runtime could not find endpoint from store'']
      \<and> panicked (Receive w r (Request msg)) = None"
    if "store_GetEndpoint w eid = Inl err" for err
    using assms that by (simp add: Receive_def)
  have no_deploy: "effects (Receive w r (Request msg)) =
        [Warn ''runtime could not find the endpoint's active deploy from store'']
      \<and> panicked (Receive w r (Request msg)) = None"
    if "store_GetEndpoint w eid = Inr endpoint"
      and "store_GetDeploy w (ActiveDeployID endpoint) = Inl err" for endpoint err
    using assms that by (simp add: Receive_def)
  have 1: "\<forall>endpoint deploy h0.
            store_GetEndpoint w eid = Inr endpoint \<longrightarrow>
            store_GetDeploy w (ActiveDeployID endpoint) = Inr deploy \<longrightarrow>
            NewRequestModule w msg = Inr h0 \<longrightarrow>
              length (responses (effects (Receive w r (Request msg)))) = 1
            \<and> length (metrics (effects (Receive w r (Request msg)))) = 1
            \<and> panicked (Receive w r (Request msg)) = None
            \<and> (\<forall>err. wazero_CompileModule w (modcache_for w endpoint) (Blob deploy) = Inl err \<longrightarrow>
                  Warn ''compiling module failed'' \<in> set (effects (Receive w r (Request msg))))
            \<and> (\<forall>compiled err.
                  wazero_CompileModule w (modcache_for w endpoint) (Blob deploy) = Inr compiled \<longrightarrow>
                  builder_Instantiate w (exec_builder h0 (Environment endpoint)) = Some err \<longrightarrow>
                  Warn ''failed to instantiate wasi module''
                    \<in> set (effects (Receive w r (Request msg))))
            \<and> (\<forall>compiled err.
                  wazero_CompileModule w (modcache_for w endpoint) (Blob deploy) = Inr compiled \<longrightarrow>
                  builder_Instantiate w (exec_builder h0 (Environment endpoint)) = None \<longrightarrow>
                  snd (snd (run_guest
                    (module_start compiled (WithArgs (exec_builder h0 (Environment endpoint)))
                       (WithEnv (exec_builder h0 (Environment endpoint))))
                    h0 (module_memory compiled))) = Some err \<longrightarrow>
                  Warn ''failed to instantiate guest module''
                    \<in> set (effects (Receive w r (Request msg))))
            \<and> (\<forall>err. metricStore_CreateRuntimeMetric w
                         \<lparr>Metric_ID = uuid_New w, StartTime = started r,
                          Duration = time_Now w - started r, DeployID = Deploy_ID deploy,
                          Metric_EndpointID = Deploy_EndpointID deploy, RequestURL = URL msg\<rparr>
                       = Some err \<longrightarrow>
                  Warn ''failed to create runtime metric''
                    \<in> set (effects (Receive w r (Request msg))))"
    using resolved by blast
  have 2: "\<forall>err. store_GetEndpoint w eid = Inl err \<longrightarrow>
              effects (Receive w r (Request msg)) =
                [Warn ''runtime could not find endpoint from store'']
            \<and> responses (effects (Receive w r (Request msg))) = []
            \<and> metrics (effects (Receive w r (Request msg))) = []
            \<and> panicked (Receive w r (Request msg)) = None"
    using no_endpoint by simp
  have 3: "\<forall>endpoint err.
            store_GetEndpoint w eid = Inr endpoint \<longrightarrow>
            store_GetDeploy w (ActiveDeployID endpoint) = Inl err \<longrightarrow>
              effects (Receive w r (Request msg)) =
                [Warn ''runtime could not find the endpoint's active deploy from store'']
            \<and> responses (effects (Receive w r (Request msg))) = []
            \<and> metrics (effects (Receive w r (Request msg))) = []
            \<and> panicked (Receive w r (Request msg)) = None"
    using no_deploy by simp
  from 1 2 3 show ?thesis by (intro conjI)
qed

theorem Receive_responds_and_emits_metric_when_resolved_witness:
  "length (responses (effects (Receive broken_metrics_world example_runtime (Request example_msg)))) = 1
   \<and> length (metrics (effects (Receive broken_metrics_world example_runtime (Request example_msg)))) = 1
   \<and> Warn ''failed to create runtime metric''
       \<in> set (effects (Receive broken_metrics_world example_runtime (Request example_msg)))
   \<and> Warn ''compiling module failed''
       \<in> set (effects (Receive broken_compile_world example_runtime (Request example_msg)))
   \<and> Warn ''failed to instantiate wasi module''
       \<in> set (effects (Receive broken_wasi_world example_runtime (Request example_msg)))
   \<and> Warn ''failed to instantiate guest module''
       \<in> set (effects (Receive trapping_world example_runtime (Request example_msg)))
   \<and> length (responses (effects (Receive trapping_world example_runtime (Request example_msg)))) = 1
   \<and> effects (Receive example_world example_runtime (Request (example_msg\<lparr>EndpointID := ''E9''\<rparr>)))
       = [Warn ''runtime could not find endpoint from store'']
   \<and> effects (Receive example_world example_runtime (Request (example_msg\<lparr>EndpointID := ''E5''\<rparr>)))
       = [Warn ''runtime could not find the endpoint's active deploy from store'']"
proof -
  let ?h0 = "\<lparr>requestBytes = [114, 49, 47, 97, 110, 121, 116, 104, 105, 110, 103] :: bytes,
              responseBytes = [] :: bytes\<rparr>"
  let ?metric = "\<lparr>Metric_ID = uuid_New example_world, StartTime = started example_runtime,
      Duration = time_Now example_world - started example_runtime,
      DeployID = Deploy_ID example_deploy,
      Metric_EndpointID = Deploy_EndpointID example_deploy, RequestURL = URL example_msg\<rparr>"
  have p: "uuid_Parse w (EndpointID example_msg) = Inr 1"
    and e: "store_GetEndpoint w 1 = Inr example_endpoint"
    and d: "store_GetDeploy w (ActiveDeployID example_endpoint) = Inr example_deploy"
    and n: "NewRequestModule w example_msg = Inr ?h0"
    if "w \<in> {broken_metrics_world, broken_compile_world, broken_wasi_world, trapping_world}" for w
    using that
    by (auto simp: example_world_def broken_compile_world_def broken_wasi_world_def
        broken_metrics_world_def trapping_world_def example_msg_def example_endpoint_def
        NewRequestModule_def)
  have m1: "metricStore_CreateRuntimeMetric broken_metrics_world
      \<lparr>Metric_ID = uuid_New broken_metrics_world, StartTime = started example_runtime,
       Duration = time_Now broken_metrics_world - started example_runtime,
       DeployID = Deploy_ID example_deploy,
       Metric_EndpointID = Deploy_EndpointID example_deploy, RequestURL = URL example_msg\<rparr>
      = Some ''store unavailable''"
    by (simp add: broken_metrics_world_def)
  have 1: "length (responses (effects (Receive broken_metrics_world example_runtime (Request example_msg)))) = 1
      \<and> length (metrics (effects (Receive broken_metrics_world example_runtime (Request example_msg)))) = 1
      \<and> Warn ''failed to create runtime metric''
          \<in> set (effects (Receive broken_metrics_world example_runtime (Request example_msg)))"
    using Receive_responds_and_emits_metric_when_resolved [OF p, of broken_metrics_world example_runtime]
      e [of broken_metrics_world] d [of broken_metrics_world] n [of broken_metrics_world] m1
    by blast
  have c2: "wazero_CompileModule broken_compile_world
      (modcache_for broken_compile_world example_endpoint) (Blob example_deploy)
      = Inl ''invalid magic number''"
    by (simp add: broken_compile_world_def)
  have 2: "Warn ''compiling module failed''
      \<in> set (effects (Receive broken_compile_world example_runtime (Request example_msg)))"
    using Receive_responds_and_emits_metric_when_resolved [OF p, of broken_compile_world example_runtime]
      e [of broken_compile_world] d [of broken_compile_world] n [of broken_compile_world] c2
    by blast
  have c3: "wazero_CompileModule broken_wasi_world
      (modcache_for broken_wasi_world example_endpoint) (Blob example_deploy) = Inr example_module"
    and b3: "builder_Instantiate broken_wasi_world (exec_builder ?h0 (Environment example_endpoint))
      = Some ''wasi instantiation failed''"
    by (simp_all add: broken_wasi_world_def example_world_def)
  have 3: "Warn ''failed to instantiate wasi module''
      \<in> set (effects (Receive broken_wasi_world example_runtime (Request example_msg)))"
    using Receive_responds_and_emits_metric_when_resolved [OF p, of broken_wasi_world example_runtime]
      e [of broken_wasi_world] d [of broken_wasi_world] n [of broken_wasi_world] c3 b3
    by blast
  let ?tm = "\<lparr>module_memory = replicate 65536 0, module_start = trapping_guest\<rparr>"
  have c4: "wazero_CompileModule trapping_world
      (modcache_for trapping_world example_endpoint) (Blob example_deploy) = Inr ?tm"
    and b4: "builder_Instantiate trapping_world (exec_builder ?h0 (Environment example_endpoint)) = None"
    and g4: "snd (snd (run_guest
        (module_start ?tm (WithArgs (exec_builder ?h0 (Environment example_endpoint)))
           (WithEnv (exec_builder ?h0 (Environment example_endpoint))))
        ?h0 (module_memory ?tm))) = Some ''unreachable executed''"
    by (simp_all add: trapping_world_def example_world_def trapping_guest_def run_evaluation)
  have 4: "Warn ''failed to instantiate guest module''
        \<in> set (effects (Receive trapping_world example_runtime (Request example_msg)))
      \<and> length (responses (effects (Receive trapping_world example_runtime (Request example_msg)))) = 1"
    using Receive_responds_and_emits_metric_when_resolved [OF p, of trapping_world example_runtime]
      e [of trapping_world] d [of trapping_world] n [of trapping_world] c4 b4 g4
    by blast
  have p9: "uuid_Parse example_world (EndpointID (example_msg\<lparr>EndpointID := ''E9''\<rparr>)) = Inr 9"
    and e9: "store_GetEndpoint example_world 9 = Inl ''could not find endpoint''"
    by (simp_all add: example_world_def)
  have p5: "uuid_Parse example_world (EndpointID (example_msg\<lparr>EndpointID := ''E5''\<rparr>)) = Inr 5"
    and e5: "store_GetEndpoint example_world 5 =
        Inr (example_endpoint\<lparr>Endpoint_ID := 5, ActiveDeployID := 0\<rparr>)"
    and d5: "store_GetDeploy example_world
        (ActiveDeployID (example_endpoint\<lparr>Endpoint_ID := 5, ActiveDeployID := 0\<rparr>))
        = Inl ''could not find deploy''"
    by (simp_all add: example_world_def)
  from Receive_responds_and_emits_metric_when_resolved [OF p9, of example_runtime] e9
  have 5: "effects (Receive example_world example_runtime (Request (example_msg\<lparr>EndpointID := ''E9''\<rparr>)))
       = [Warn ''runtime could not find endpoint from store'']"
    by blast
  from Receive_responds_and_emits_metric_when_resolved [OF p5, of example_runtime] e5 d5
  have 6: "effects (Receive example_world example_runtime (Request (example_msg\<lparr>EndpointID := ''E5''\<rparr>)))
       = [Warn ''runtime could not find the endpoint's active deploy from store'']"
    by blast
  from 1 2 3 4 5 6 show ?thesis by blast
qed

text \<open>
  The claim as the specification states it fails where a lookup fails: for the
  identifier of no endpoint, and for the endpoint that has no deployment, the handler
  sends no response and emits no metric.
\<close>

theorem Receive_lookup_failure_counterexample:
  "responses (effects (Receive example_world example_runtime
       (Request (example_msg\<lparr>EndpointID := ''E9''\<rparr>)))) = []
   \<and> metrics (effects (Receive example_world example_runtime
       (Request (example_msg\<lparr>EndpointID := ''E9''\<rparr>)))) = []
   \<and> responses (effects (Receive example_world example_runtime
       (Request (example_msg\<lparr>EndpointID := ''E5''\<rparr>)))) = []
   \<and> metrics (effects (Receive example_world example_runtime
       (Request (example_msg\<lparr>EndpointID := ''E5''\<rparr>)))) = []"
  by (simp add: Receive_def example_world_def example_msg_def example_endpoint_def)




end
